theory Spec2Isabelle
  imports Complex_Main
begin

section \<open>Symbolic matrices\<close>

text \<open>
  The notebook derives its models with symbolic matrices (\<^verbatim>\<open>sym.Matrix\<close>) whose entries
  are expressions over the real symbols \<open>psi, theta, phi, w_x, w_y, w_z, tau_1 .. tau_4,
  alpha, delta\<close>.  A symbolic matrix is modelled by the real matrix it denotes once the
  symbols are given values: a list of rows.  A column vector is an \<open>n \<times> 1\<close> matrix, as in
  the source.  \<^verbatim>\<open>sym.simplify\<close> and \<^verbatim>\<open>sym.nsimplify\<close> do not change what an expression
  denotes and are modelled by the identity; the decimal literals of the source denote the
  rationals they are written as (\<^verbatim>\<open>1.1\<close> is \<open>11 / 10\<close>), which is what
  \<^verbatim>\<open>nsimplify\<close> makes of them in the displayed results.
\<close>

type_synonym matrix = "real list list"

definition dot :: "real list \<Rightarrow> real list \<Rightarrow> real" where
  "dot u v = sum_list (map2 (*) u v)"

text \<open>\<^verbatim>\<open>a * b\<close> and \<^verbatim>\<open>a @ b\<close> on matrices; \<^verbatim>\<open>a.T\<close> is \<^const>\<open>transpose\<close>.\<close>

definition mat_mul :: "matrix \<Rightarrow> matrix \<Rightarrow> matrix" where
  "mat_mul a b = map (\<lambda>row. map (dot row) (transpose b)) a"

text \<open>\<^verbatim>\<open>c * a\<close> for a scalar \<open>c\<close>.\<close>

definition smult :: "real \<Rightarrow> matrix \<Rightarrow> matrix" where
  "smult c a = map (map ((*) c)) a"

text \<open>\<^verbatim>\<open>a + b\<close> on matrices of one shape.\<close>

definition mat_add :: "matrix \<Rightarrow> matrix \<Rightarrow> matrix" where
  "mat_add a b = map2 (map2 (+)) a b"

text \<open>\<^verbatim>\<open>sym.Matrix.hstack(a, b, c)\<close> joins rows; \<^verbatim>\<open>sym.Matrix.vstack(a, b)\<close> appends them.\<close>

definition hstack :: "matrix list \<Rightarrow> matrix" where
  "hstack ms = (case ms of [] \<Rightarrow> [] | m # rest \<Rightarrow> foldl (map2 (@)) m rest)"

definition vstack :: "matrix \<Rightarrow> matrix \<Rightarrow> matrix" where
  "vstack a b = a @ b"

text \<open>\<^verbatim>\<open>a[k]\<close> with one integer index reads the \<open>k\<close>-th entry in row-major order.\<close>

definition entry :: "matrix \<Rightarrow> nat \<Rightarrow> real" where
  "entry a k = concat a ! k"

text \<open>
  \<^verbatim>\<open>a.inv()\<close> is applied by the notebook to one \<open>3 \<times> 3\<close> matrix.  It denotes the inverse
  matrix, here in its cofactor form; lemma \<open>mat_inv_inverse\<close> below shows that this is
  the inverse wherever the determinant is not zero.  Where the determinant is zero the
  expression of the source has no value; nothing is stated about \<open>mat_inv\<close> there.
\<close>

definition det3 :: "matrix \<Rightarrow> real" where
  "det3 m = m!0!0 * (m!1!1 * m!2!2 - m!1!2 * m!2!1)
          - m!0!1 * (m!1!0 * m!2!2 - m!1!2 * m!2!0)
          + m!0!2 * (m!1!0 * m!2!1 - m!1!1 * m!2!0)"

definition adj3 :: "matrix \<Rightarrow> matrix" where
  "adj3 m =
    [[m!1!1 * m!2!2 - m!1!2 * m!2!1, m!0!2 * m!2!1 - m!0!1 * m!2!2, m!0!1 * m!1!2 - m!0!2 * m!1!1],
     [m!1!2 * m!2!0 - m!1!0 * m!2!2, m!0!0 * m!2!2 - m!0!2 * m!2!0, m!0!2 * m!1!0 - m!0!0 * m!1!2],
     [m!1!0 * m!2!1 - m!1!1 * m!2!0, m!0!1 * m!2!0 - m!0!0 * m!2!1, m!0!0 * m!1!1 - m!0!1 * m!1!0]]"

definition mat_inv :: "matrix \<Rightarrow> matrix" where
  "mat_inv m = smult (1 / det3 m) (adj3 m)"

section \<open>Equations of motion: the dynamic model \<open>f\<close>\<close>

subsection \<open>Physical parameters\<close>

definition mb :: real where "mb = 6"
definition Jxb :: real where "Jxb = 10"
definition Jyb :: real where "Jyb = 10"
definition Jzb :: real where "Jzb = 16"

definition mw :: real where "mw = 1"
definition Jxw :: real where "Jxw = 75 / 1000"
definition Jyw :: real where "Jyw = 75 / 1000"
definition Jzw :: real where "Jzw = 125 / 1000"
definition lw :: real where "lw = 11 / 10"

subsection \<open>Resultant torques\<close>

definition lt :: real where
  "lt = lw * sqrt 2 / 2"

definition T1 :: "real \<Rightarrow> matrix" where
  "T1 tau_1 = smult (- tau_1) [[lt], [0], [lt]]"

definition T2 :: "real \<Rightarrow> matrix" where
  "T2 tau_2 = smult (- tau_2) [[- lt], [0], [lt]]"

definition T3 :: "real \<Rightarrow> matrix" where
  "T3 tau_3 = smult (- tau_3) [[0], [lt], [lt]]"

definition T4 :: "real \<Rightarrow> matrix" where
  "T4 tau_4 = smult (- tau_4) [[0], [- lt], [lt]]"

definition T :: "real \<Rightarrow> real \<Rightarrow> real \<Rightarrow> real \<Rightarrow> matrix" where
  "T tau_1 tau_2 tau_3 tau_4 =
     mat_add (mat_add (mat_add (T1 tau_1) (T2 tau_2)) (T3 tau_3)) (T4 tau_4)"

subsection \<open>Moments of inertia of spacecraft and wheels together\<close>

definition Jx :: real where "Jx = Jxb + 4 * mw * lw\<^sup>2"
definition Jy :: real where "Jy = Jyb + 4 * mw * lw\<^sup>2"
definition Jz :: real where "Jz = Jzb + 4 * mw * lw\<^sup>2"

subsection \<open>Rotation matrices\<close>

definition Rz :: "real \<Rightarrow> matrix" where
  "Rz psi = [[cos psi, - sin psi, 0], [sin psi, cos psi, 0], [0, 0, 1]]"

definition Ry :: "real \<Rightarrow> matrix" where
  "Ry theta = [[cos theta, 0, sin theta], [0, 1, 0], [- sin theta, 0, cos theta]]"

definition Rx :: "real \<Rightarrow> matrix" where
  "Rx phi = [[1, 0, 0], [0, cos phi, - sin phi], [0, sin phi, cos phi]]"

subsection \<open>From angular velocity to angular rates\<close>

definition ex :: matrix where "ex = [[1], [0], [0]]"
definition ey :: matrix where "ey = [[0], [1], [0]]"
definition ez :: matrix where "ez = [[0], [0], [1]]"

text \<open>
  The matrix that the source inverts: its columns are the axes of the yaw, pitch and roll
  rotations seen from the body frame, so that it maps the angular rates
  \<open>(\<psi>', \<theta>', \<phi>')\<close> to the body angular velocity.
\<close>

definition kinematic :: "real \<Rightarrow> real \<Rightarrow> matrix" where
  "kinematic theta phi =
     hstack [mat_mul (transpose (mat_mul (Ry theta) (Rx phi))) ez,
             mat_mul (transpose (Rx phi)) ey,
             ex]"

definition M :: "real \<Rightarrow> real \<Rightarrow> matrix" where
  "M theta phi = mat_inv (kinematic theta phi)"

subsection \<open>Euler's equations and the equations of motion\<close>

definition euler :: "real \<Rightarrow> real \<Rightarrow> real \<Rightarrow> real \<Rightarrow> real \<Rightarrow> real \<Rightarrow> real \<Rightarrow> matrix" where
  "euler w_x w_y w_z tau_1 tau_2 tau_3 tau_4 =
     [[(1 / Jx) * (entry (T tau_1 tau_2 tau_3 tau_4) 0 + (Jy - Jz) * w_y * w_z)],
      [(1 / Jy) * (entry (T tau_1 tau_2 tau_3 tau_4) 1 + (Jz - Jx) * w_z * w_x)],
      [(1 / Jz) * (entry (T tau_1 tau_2 tau_3 tau_4) 2 + (Jx - Jy) * w_x * w_y)]]"

definition f ::
  "real \<Rightarrow> real \<Rightarrow> real \<Rightarrow> real \<Rightarrow> real \<Rightarrow> real \<Rightarrow> real \<Rightarrow> real \<Rightarrow> real \<Rightarrow> real \<Rightarrow> matrix" where
  "f psi theta phi w_x w_y w_z tau_1 tau_2 tau_3 tau_4 =
     vstack (mat_mul (M theta phi) [[w_x], [w_y], [w_z]])
            (euler w_x w_y w_z tau_1 tau_2 tau_3 tau_4)"

text \<open>The value of \<open>f\<close> that the notebook displays after simplification.\<close>

definition f_displayed ::
  "real \<Rightarrow> real \<Rightarrow> real \<Rightarrow> real \<Rightarrow> real \<Rightarrow> real \<Rightarrow> real \<Rightarrow> real \<Rightarrow> real \<Rightarrow> real \<Rightarrow> matrix" where
  "f_displayed psi theta phi w_x w_y w_z tau_1 tau_2 tau_3 tau_4 =
     [[(w_y * sin phi + w_z * cos phi) / cos theta],
      [w_y * cos phi - w_z * sin phi],
      [w_x + w_y * sin phi * tan theta + w_z * cos phi * tan theta],
      [- 55 * sqrt 2 * tau_1 / 1484 + 55 * sqrt 2 * tau_2 / 1484 - 150 * w_y * w_z / 371],
      [- 55 * sqrt 2 * tau_3 / 1484 + 55 * sqrt 2 * tau_4 / 1484 + 150 * w_x * w_z / 371],
      [- 55 * sqrt 2 * (tau_1 + tau_2 + tau_3 + tau_4) / 2084]]"

section \<open>The sensor model \<open>g\<close>\<close>

text \<open>Scope radius.\<close>

definition r :: real where
  "r = (8 / 10) / (21 / 10)"

definition p_star_in_space :: "real \<Rightarrow> real \<Rightarrow> matrix" where
  "p_star_in_space alpha delta =
     [[cos alpha * cos delta], [sin alpha * cos delta], [sin delta]]"

definition R_body_in_space :: "real \<Rightarrow> real \<Rightarrow> real \<Rightarrow> matrix" where
  "R_body_in_space psi theta phi = mat_mul (mat_mul (Rz psi) (Ry theta)) (Rx phi)"

definition p_star_in_body :: "real \<Rightarrow> real \<Rightarrow> real \<Rightarrow> real \<Rightarrow> real \<Rightarrow> matrix" where
  "p_star_in_body psi theta phi alpha delta =
     mat_mul (transpose (R_body_in_space psi theta phi)) (p_star_in_space alpha delta)"

definition p_star_in_image :: "real \<Rightarrow> real \<Rightarrow> real \<Rightarrow> real \<Rightarrow> real \<Rightarrow> matrix" where
  "p_star_in_image psi theta phi alpha delta =
     smult (1 / r)
       [[entry (p_star_in_body psi theta phi alpha delta) 1
           / entry (p_star_in_body psi theta phi alpha delta) 0],
        [entry (p_star_in_body psi theta phi alpha delta) 2
           / entry (p_star_in_body psi theta phi alpha delta) 0]]"

definition g :: "real \<Rightarrow> real \<Rightarrow> real \<Rightarrow> real \<Rightarrow> real \<Rightarrow> matrix" where
  "g psi theta phi alpha delta = p_star_in_image psi theta phi alpha delta"

text \<open>The value of \<open>g\<close> that the notebook displays after simplification.\<close>

definition g_displayed :: "real \<Rightarrow> real \<Rightarrow> real \<Rightarrow> real \<Rightarrow> real \<Rightarrow> matrix" where
  "g_displayed psi theta phi alpha delta =
     [[21 * (sin delta * sin phi * cos theta
             + sin phi * sin theta * cos delta * cos (alpha - psi)
             + sin (alpha - psi) * cos delta * cos phi)
        / (8 * (- sin delta * sin theta + cos delta * cos theta * cos (alpha - psi)))],
      [21 * (sin delta * cos phi * cos theta
             - sin phi * sin (alpha - psi) * cos delta
             + sin theta * cos delta * cos phi * cos (alpha - psi))
        / (8 * (- sin delta * sin theta + cos delta * cos theta * cos (alpha - psi)))]]"

section \<open>Linearization: \<open>get_model\<close>\<close>

text \<open>
  \<^verbatim>\<open>f.jacobian([psi, theta, phi, w_x, w_y, w_z])\<close> is the matrix of the partial derivatives
  of the entries of \<open>f\<close>, as symbolic expressions, and \<^verbatim>\<open>f.jacobian([tau_1, .., tau_4])\<close>
  the same for the torques.  \<open>A_sym\<close> and \<open>B_sym\<close> are these matrices of expressions for the
  displayed \<open>f\<close>.  What makes a matrix the Jacobian of a function of a list of variables
  is \<open>is_jacobian\<close>: entry \<open>(i, j)\<close> is the derivative of the \<open>i\<close>-th entry of the function
  along the \<open>j\<close>-th variable.  Lemmas \<open>A_sym_jacobian\<close> and \<open>B_sym_jacobian\<close> below show that
  \<open>A_sym\<close> and \<open>B_sym\<close> are the Jacobians of \<open>f\<close>.
\<close>

definition is_jacobian :: "(real list \<Rightarrow> matrix) \<Rightarrow> real list \<Rightarrow> matrix \<Rightarrow> bool" where
  "is_jacobian fn x J \<longleftrightarrow>
     length J = length (fn x) \<and>
     (\<forall>i < length (fn x). length (J ! i) = length x \<and>
        (\<forall>j < length x.
           ((\<lambda>t. entry (fn (x[j := t])) i) has_real_derivative J ! i ! j) (at (x ! j))))"

definition A_sym ::
  "real \<Rightarrow> real \<Rightarrow> real \<Rightarrow> real \<Rightarrow> real \<Rightarrow> real \<Rightarrow> real \<Rightarrow> real \<Rightarrow> real \<Rightarrow> real \<Rightarrow> matrix" where
  "A_sym psi theta phi w_x w_y w_z tau_1 tau_2 tau_3 tau_4 =
     [[0, (w_y * sin phi + w_z * cos phi) * sin theta / (cos theta)\<^sup>2,
          (w_y * cos phi - w_z * sin phi) / cos theta,
          0, sin phi / cos theta, cos phi / cos theta],
      [0, 0, - w_y * sin phi - w_z * cos phi, 0, cos phi, - sin phi],
      [0, w_y * sin phi * ((tan theta)\<^sup>2 + 1) + w_z * cos phi * ((tan theta)\<^sup>2 + 1),
          w_y * cos phi * tan theta - w_z * sin phi * tan theta,
          1, sin phi * tan theta, cos phi * tan theta],
      [0, 0, 0, 0, - 150 * w_z / 371, - 150 * w_y / 371],
      [0, 0, 0, 150 * w_z / 371, 0, 150 * w_x / 371],
      [0, 0, 0, 0, 0, 0]]"

definition B_sym ::
  "real \<Rightarrow> real \<Rightarrow> real \<Rightarrow> real \<Rightarrow> real \<Rightarrow> real \<Rightarrow> real \<Rightarrow> real \<Rightarrow> real \<Rightarrow> real \<Rightarrow> matrix" where
  "B_sym psi theta phi w_x w_y w_z tau_1 tau_2 tau_3 tau_4 =
     [[0, 0, 0, 0],
      [0, 0, 0, 0],
      [0, 0, 0, 0],
      [- 55 * sqrt 2 / 1484, 55 * sqrt 2 / 1484, 0, 0],
      [0, 0, - 55 * sqrt 2 / 1484, 55 * sqrt 2 / 1484],
      [- 55 * sqrt 2 / 2084, - 55 * sqrt 2 / 2084, - 55 * sqrt 2 / 2084, - 55 * sqrt 2 / 2084]]"

text \<open>
  \<^verbatim>\<open>sym.lambdify\<close> turns a matrix of expressions into the function of the ten symbols
  that evaluates it; \<^verbatim>\<open>.astype(float)\<close> leaves a real number as it is.  \<open>get_model\<close>
  has no branch and no \<^verbatim>\<open>raise\<close>: it evaluates both Jacobians at its arguments and
  returns the pair.
\<close>

definition A_num ::
  "real \<Rightarrow> real \<Rightarrow> real \<Rightarrow> real \<Rightarrow> real \<Rightarrow> real \<Rightarrow> real \<Rightarrow> real \<Rightarrow> real \<Rightarrow> real \<Rightarrow> matrix" where
  "A_num = A_sym"

definition B_num ::
  "real \<Rightarrow> real \<Rightarrow> real \<Rightarrow> real \<Rightarrow> real \<Rightarrow> real \<Rightarrow> real \<Rightarrow> real \<Rightarrow> real \<Rightarrow> real \<Rightarrow> matrix" where
  "B_num = B_sym"

definition get_model ::
  "real \<Rightarrow> real \<Rightarrow> real \<Rightarrow> real \<Rightarrow> real \<Rightarrow> real \<Rightarrow> real \<Rightarrow> real \<Rightarrow> real \<Rightarrow> real \<Rightarrow> matrix \<times> matrix" where
  "get_model psi_e theta_e phi_e w_x_e w_y_e w_z_e tau_1_e tau_2_e tau_3_e tau_4_e =
     (A_num psi_e theta_e phi_e w_x_e w_y_e w_z_e tau_1_e tau_2_e tau_3_e tau_4_e,
      B_num psi_e theta_e phi_e w_x_e w_y_e w_z_e tau_1_e tau_2_e tau_3_e tau_4_e)"

section \<open>Numeric arrays of the design cells\<close>

text \<open>
  The design cells work on two-dimensional \<^verbatim>\<open>numpy\<close> arrays \<open>A\<close>, \<open>B\<close>, \<open>C\<close>, \<open>K\<close>, \<open>L\<close>
  held in notebook globals; each cell is modelled as a function of the globals it reads.
  An array is again a list of rows, all of one length; an operation on arrays whose shapes
  do not fit raises \<^verbatim>\<open>ValueError\<close>.
\<close>

datatype error = ValueError | TypeError | AttributeError

text \<open>An array of shape \<open>(rws, cls)\<close>.\<close>

definition is_array :: "nat \<Rightarrow> nat \<Rightarrow> matrix \<Rightarrow> bool" where
  "is_array rws cls a \<longleftrightarrow> length a = rws \<and> (\<forall>row \<in> set a. length row = cls)"

definition and_then :: "error + 'a \<Rightarrow> ('a \<Rightarrow> error + 'b) \<Rightarrow> error + 'b" where
  "and_then x k = (case x of Inl e \<Rightarrow> Inl e | Inr v \<Rightarrow> k v)"

definition nrows :: "matrix \<Rightarrow> nat" where
  "nrows a = length a"

definition ncols :: "matrix \<Rightarrow> nat" where
  "ncols a = (case a of [] \<Rightarrow> 0 | row # _ \<Rightarrow> length row)"

text \<open>\<^verbatim>\<open>a @ b\<close>.\<close>

definition matmul :: "matrix \<Rightarrow> matrix \<Rightarrow> error + matrix" where
  "matmul a b = (if ncols a = nrows b then Inr (mat_mul a b) else Inl ValueError)"

text \<open>
  \<^verbatim>\<open>a - b\<close> broadcasts: along each axis the two lengths are equal, or one of them is 1
  and that array is repeated along the axis.
\<close>

definition bdim :: "nat \<Rightarrow> nat \<Rightarrow> nat option" where
  "bdim m n = (if m = n then Some m else if m = 1 then Some n else if n = 1 then Some m else None)"

definition stretch :: "nat \<Rightarrow> 'a list \<Rightarrow> 'a list" where
  "stretch n xs = (if length xs = n then xs else replicate n (hd xs))"

definition broadcast_to :: "nat \<Rightarrow> nat \<Rightarrow> matrix \<Rightarrow> matrix" where
  "broadcast_to rws cls a = map (stretch cls) (stretch rws a)"

definition np_sub :: "matrix \<Rightarrow> matrix \<Rightarrow> error + matrix" where
  "np_sub a b =
     (case bdim (nrows a) (nrows b) of
        None \<Rightarrow> Inl ValueError
      | Some rws \<Rightarrow>
          (case bdim (ncols a) (ncols b) of
             None \<Rightarrow> Inl ValueError
           | Some cls \<Rightarrow>
               Inr (map2 (map2 (-)) (broadcast_to rws cls a) (broadcast_to rws cls b))))"

text \<open>\<^verbatim>\<open>- a\<close> and \<^verbatim>\<open>np.zeros((rws, cls))\<close>.\<close>

definition np_neg :: "matrix \<Rightarrow> matrix" where
  "np_neg a = map (map uminus) a"

definition zeros :: "nat \<Rightarrow> nat \<Rightarrow> matrix" where
  "zeros rws cls = replicate rws (replicate cls 0)"

text \<open>
  \<^verbatim>\<open>np.block\<close> joins the arrays of each inner list along the last axis (they must have
  the same number of rows) and the results along the first axis (they must have the same
  number of columns).
\<close>

definition hcat :: "matrix \<Rightarrow> matrix \<Rightarrow> error + matrix" where
  "hcat a b = (if nrows a = nrows b then Inr (map2 (@) a b) else Inl ValueError)"

definition vcat :: "matrix \<Rightarrow> matrix \<Rightarrow> error + matrix" where
  "vcat a b = (if ncols a = ncols b then Inr (a @ b) else Inl ValueError)"

section \<open>Observability check and observer gain\<close>

text \<open>\<^verbatim>\<open>Wo = np.block([[C], [C @ A], [C@A@A]])\<close>\<close>

definition Wo :: "matrix \<Rightarrow> matrix \<Rightarrow> error + matrix" where
  "Wo A C =
     and_then (matmul C A) (\<lambda>CA.
     and_then (matmul CA A) (\<lambda>CAA.
     and_then (vcat C CA) (\<lambda>upper.
     vcat upper CAA)))"

text \<open>
  \<^verbatim>\<open>np.linalg.matrix_rank(Wo)\<close>: the cell shows what the library routine returns.  The
  routine is not part of the notebook and is a parameter.
\<close>

definition show_rank :: "(matrix \<Rightarrow> error + nat) \<Rightarrow> matrix \<Rightarrow> error + nat" where
  "show_rank matrix_rank W = matrix_rank W"

text \<open>
  \<^verbatim>\<open>L = signal.place_poles(A.T, C.T, [-1., -1.]).gain_matrix.T\<close>, with the library routine
  (taken to return its gain matrix) as a parameter.
\<close>

definition L :: "(matrix \<Rightarrow> matrix \<Rightarrow> real list \<Rightarrow> error + matrix) \<Rightarrow> matrix \<Rightarrow> matrix \<Rightarrow> error + matrix" where
  "L place_poles A C =
     and_then (place_poles (transpose A) (transpose C) [- 1, - 1]) (\<lambda>gain_matrix.
     Inr (transpose gain_matrix))"

text \<open>
  The observability matrix in the words of the specification: the blocks \<open>C \<cdot> A\<^sup>i\<close> for
  \<open>i = 0, \<dots>, n - 1\<close>, stacked.
\<close>

fun C_A_power :: "matrix \<Rightarrow> matrix \<Rightarrow> nat \<Rightarrow> matrix" where
  "C_A_power C A 0 = C"
| "C_A_power C A (Suc i) = mat_mul (C_A_power C A i) A"

definition observability_matrix_spec :: "nat \<Rightarrow> matrix \<Rightarrow> matrix \<Rightarrow> matrix" where
  "observability_matrix_spec n A C = concat (map (C_A_power C A) [0..<n])"

section \<open>Closed-loop matrix \<open>F\<close> and its eigenvalues\<close>

text \<open>
  \<^verbatim>\<open>F = np.block([[A - B @ K, - B @ K], [np.zeros((2, 2)), A - L @ C]])\<close>; the unary minus
  binds more tightly than \<^verbatim>\<open>@\<close>.
\<close>

definition F :: "matrix \<Rightarrow> matrix \<Rightarrow> matrix \<Rightarrow> matrix \<Rightarrow> matrix \<Rightarrow> error + matrix" where
  "F A B C K Lg =
     and_then (matmul B K) (\<lambda>BK.
     and_then (np_sub A BK) (\<lambda>A_BK.
     and_then (matmul (np_neg B) K) (\<lambda>mBK.
     and_then (matmul Lg C) (\<lambda>LC.
     and_then (np_sub A LC) (\<lambda>A_LC.
     and_then (hcat A_BK mBK) (\<lambda>upper.
     and_then (hcat (zeros 2 2) A_LC) (\<lambda>lower.
     vcat upper lower)))))))"


section \<open>The controller class\<close>









section \<open>Properties of the models\<close>

lemma kinematic_eq: "kinematic theta phi =
  [[- sin theta, 0, 1], [sin phi * cos theta, cos phi, 0], [cos phi * cos theta, - sin phi, 0]]"
  by (simp add: kinematic_def hstack_def mat_mul_def dot_def Rx_def Ry_def ex_def ey_def ez_def)

lemma sc1: "sin (x::real) * sin x + cos x * cos x = 1"
  using sin_cos_squared_add [of x] by (simp add: power2_eq_square)

lemma sc_scale: "sin (x::real) * sin x * y + cos x * cos x * y = y"
  using sc1 [of x] by algebra

lemma det3_kinematic: "det3 (kinematic theta phi) = - cos theta"
  using sc_scale [of phi "cos theta"]
  by (simp add: kinematic_eq det3_def algebra_simps)

lemma M_eq:
  assumes "cos theta \<noteq> 0"
  shows "M theta phi =
    [[0, sin phi / cos theta, cos phi / cos theta],
     [0, cos phi, - sin phi],
     [1, sin phi * tan theta, cos phi * tan theta]]"
proof -
  have a: "adj3 (kinematic theta phi) =
    [[0, - sin phi, - cos phi],
     [0, - cos phi * cos theta, sin phi * cos theta],
     [- cos theta, - sin theta * sin phi, - sin theta * cos phi]]"
    using sc_scale [of phi "cos theta"]
    by (simp add: kinematic_eq adj3_def algebra_simps)
  show ?thesis
    using assms by (simp add: M_def mat_inv_def det3_kinematic a smult_def tan_def)
qed

lemma f_eq_displayed:
  assumes "cos theta \<noteq> 0"
  shows "f psi theta phi w_x w_y w_z tau_1 tau_2 tau_3 tau_4 =
         f_displayed psi theta phi w_x w_y w_z tau_1 tau_2 tau_3 tau_4"
  using assms
  apply (simp add: f_def f_displayed_def M_eq vstack_def mat_mul_def dot_def euler_def)
  apply (simp add: entry_def T_def T1_def T2_def T3_def T4_def mat_add_def smult_def
      Jx_def Jy_def Jz_def Jxb_def Jyb_def Jzb_def mw_def lw_def lt_def power2_eq_square)
  apply (simp add: field_simps)
  done

lemma mat_mul_adj3:
  "mat_mul [[a, b, c], [d, e, h], [p, q, s]] (adj3 [[a, b, c], [d, e, h], [p, q, s]])
     = [[det3 [[a, b, c], [d, e, h], [p, q, s]], 0, 0],
        [0, det3 [[a, b, c], [d, e, h], [p, q, s]], 0],
        [0, 0, det3 [[a, b, c], [d, e, h], [p, q, s]]]]"
  by (simp add: det3_def adj3_def mat_mul_def dot_def algebra_simps)

lemma adj3_mat_mul:
  "mat_mul (adj3 [[a, b, c], [d, e, h], [p, q, s]]) [[a, b, c], [d, e, h], [p, q, s]]
     = [[det3 [[a, b, c], [d, e, h], [p, q, s]], 0, 0],
        [0, det3 [[a, b, c], [d, e, h], [p, q, s]], 0],
        [0, 0, det3 [[a, b, c], [d, e, h], [p, q, s]]]]"
  by (simp add: det3_def adj3_def mat_mul_def dot_def algebra_simps)

lemma mat_inv_inverse:
  assumes "det3 [[a, b, c], [d, e, h], [p, q, s]] \<noteq> 0"
  shows "mat_mul [[a, b, c], [d, e, h], [p, q, s]] (mat_inv [[a, b, c], [d, e, h], [p, q, s]])
           = [[1, 0, 0], [0, 1, 0], [0, 0, 1]]"
    and "mat_mul (mat_inv [[a, b, c], [d, e, h], [p, q, s]]) [[a, b, c], [d, e, h], [p, q, s]]
           = [[1, 0, 0], [0, 1, 0], [0, 0, 1]]"
proof -
  let ?m = "[[a, b, c], [d, e, h], [p, q, s]]"
  let ?k = "1 / det3 ?m"
  have A: "adj3 ?m = [[adj3 ?m ! 0 ! 0, adj3 ?m ! 0 ! 1, adj3 ?m ! 0 ! 2],
                      [adj3 ?m ! 1 ! 0, adj3 ?m ! 1 ! 1, adj3 ?m ! 1 ! 2],
                      [adj3 ?m ! 2 ! 0, adj3 ?m ! 2 ! 1, adj3 ?m ! 2 ! 2]]"
    by (simp add: adj3_def)
  have r: "mat_mul ?m (smult ?k (adj3 ?m)) = smult ?k (mat_mul ?m (adj3 ?m))"
    by (subst (1 2) A) (simp add: smult_def mat_mul_def dot_def algebra_simps)
  have l: "mat_mul (smult ?k (adj3 ?m)) ?m = smult ?k (mat_mul (adj3 ?m) ?m)"
    by (subst (1 2) A) (simp add: smult_def mat_mul_def dot_def algebra_simps)
  show "mat_mul ?m (mat_inv ?m) = [[1, 0, 0], [0, 1, 0], [0, 0, 1]]"
    unfolding mat_inv_def r mat_mul_adj3 using assms by (simp add: smult_def)
  show "mat_mul (mat_inv ?m) ?m = [[1, 0, 0], [0, 1, 0], [0, 0, 1]]"
    unfolding mat_inv_def l adj3_mat_mul using assms by (simp add: smult_def)
qed

lemma Jvals: "Jx = 371 / 25" "Jy = 371 / 25" "Jz = 521 / 25"
  by (simp_all add: Jx_def Jy_def Jz_def Jxb_def Jyb_def Jzb_def mw_def lw_def power2_eq_square)

lemma pitch_singularity:
  "cos theta = 0 \<longleftrightarrow>
     (\<exists>k::int. theta = pi / 2 + 2 * pi * real_of_int k \<or> theta = - (pi / 2) + 2 * pi * real_of_int k)"
proof
  assume "cos theta = 0"
  then obtain n :: int where n: "theta = real_of_int n * pi + pi / 2"
    by (auto simp: cos_zero_iff_int2)
  show "\<exists>k::int. theta = pi / 2 + 2 * pi * real_of_int k \<or> theta = - (pi / 2) + 2 * pi * real_of_int k"
  proof (cases "even n")
    case True
    then obtain k where "n = 2 * k" by (auto elim: evenE)
    with n have "theta = pi / 2 + 2 * pi * real_of_int k" by (simp add: algebra_simps)
    then show ?thesis by blast
  next
    case False
    then obtain k where "n = 2 * k + 1" by (auto elim: oddE)
    with n have "theta = - (pi / 2) + 2 * pi * real_of_int (k + 1)" by (simp add: algebra_simps)
    then show ?thesis by blast
  qed
next
  assume "\<exists>k::int. theta = pi / 2 + 2 * pi * real_of_int k \<or> theta = - (pi / 2) + 2 * pi * real_of_int k"
  then obtain k :: int where
    "theta = pi / 2 + 2 * pi * real_of_int k \<or> theta = - (pi / 2) + 2 * pi * real_of_int k"
    by blast
  then have "theta = real_of_int (2 * k) * pi + pi / 2 \<or> theta = real_of_int (2 * k - 1) * pi + pi / 2"
    by (auto simp: algebra_simps)
  then show "cos theta = 0"
    unfolding cos_zero_iff_int2 by blast
qed

lemma pitch_singularity_principal:
  assumes "- pi \<le> theta" and "theta \<le> pi"
  shows "cos theta = 0 \<longleftrightarrow> theta = pi / 2 \<or> theta = - (pi / 2)"
proof
  assume c: "cos theta = 0"
  show "theta = pi / 2 \<or> theta = - (pi / 2)"
  proof (cases "0 \<le> theta")
    case True
    have "theta = pi / 2"
      by (rule cos_inj_pi) (use True assms c in simp_all)
    then show ?thesis by simp
  next
    case False
    have "- theta = pi / 2"
      by (rule cos_inj_pi) (use False assms c in simp_all)
    then show ?thesis by simp
  qed
next
  assume "theta = pi / 2 \<or> theta = - (pi / 2)"
  then show "cos theta = 0"
    by (elim disjE) (simp_all only: cos_pi_half cos_minus)
qed

lemma f_entry_euler:
  "entry (f psi theta phi w_x w_y w_z tau_1 tau_2 tau_3 tau_4) 3
      = (1 / Jx) * (entry (T tau_1 tau_2 tau_3 tau_4) 0 + (Jy - Jz) * w_y * w_z)"
  "entry (f psi theta phi w_x w_y w_z tau_1 tau_2 tau_3 tau_4) 4
      = (1 / Jy) * (entry (T tau_1 tau_2 tau_3 tau_4) 1 + (Jz - Jx) * w_z * w_x)"
  "entry (f psi theta phi w_x w_y w_z tau_1 tau_2 tau_3 tau_4) 5
      = (1 / Jz) * (entry (T tau_1 tau_2 tau_3 tau_4) 2 + (Jx - Jy) * w_x * w_y)"
  by (simp_all add: f_def vstack_def mat_mul_def euler_def M_def mat_inv_def smult_def
        adj3_def entry_def)

text \<open>
  Claim C4.  Wherever the pitch is not at the kinematic singularity (\<open>cos \<theta> \<noteq> 0\<close>: as an
  angle, \<open>\<theta>\<close> is not \<open>\<plusminus>\<pi>/2\<close>), the dynamic model \<open>f\<close> returns six entries.  The first three,
  the angular rates, are the body angular velocity taken through \<open>M\<close>, the inverse of the
  kinematic matrix of the yaw, pitch and roll rotations: the kinematic matrix maps them
  back to \<open>(w\<^sub>x, w\<^sub>y, w\<^sub>z)\<close>.  The last three, the angular accelerations, satisfy Euler's
  equations for a rigid body whose principal moments of inertia are those of the base
  plus \<open>4 \<cdot> m\<^sub>w \<cdot> l\<^sub>w\<^sup>2\<close> on each axis.  The result is the expression the notebook displays.
\<close>

theorem dynamics_model:
  assumes "cos theta \<noteq> 0"
  shows "length (f psi theta phi w_x w_y w_z tau_1 tau_2 tau_3 tau_4) = 6
    \<and> mat_mul (kinematic theta phi) (take 3 (f psi theta phi w_x w_y w_z tau_1 tau_2 tau_3 tau_4))
        = [[w_x], [w_y], [w_z]]
    \<and> take 3 (f psi theta phi w_x w_y w_z tau_1 tau_2 tau_3 tau_4)
        = mat_mul (M theta phi) [[w_x], [w_y], [w_z]]
    \<and> mat_mul (M theta phi) (kinematic theta phi) = [[1, 0, 0], [0, 1, 0], [0, 0, 1]]
    \<and> (Jxb + 4 * mw * lw\<^sup>2) * entry (f psi theta phi w_x w_y w_z tau_1 tau_2 tau_3 tau_4) 3
        = entry (T tau_1 tau_2 tau_3 tau_4) 0
          + ((Jyb + 4 * mw * lw\<^sup>2) - (Jzb + 4 * mw * lw\<^sup>2)) * w_y * w_z
    \<and> (Jyb + 4 * mw * lw\<^sup>2) * entry (f psi theta phi w_x w_y w_z tau_1 tau_2 tau_3 tau_4) 4
        = entry (T tau_1 tau_2 tau_3 tau_4) 1
          + ((Jzb + 4 * mw * lw\<^sup>2) - (Jxb + 4 * mw * lw\<^sup>2)) * w_z * w_x
    \<and> (Jzb + 4 * mw * lw\<^sup>2) * entry (f psi theta phi w_x w_y w_z tau_1 tau_2 tau_3 tau_4) 5
        = entry (T tau_1 tau_2 tau_3 tau_4) 2
          + ((Jxb + 4 * mw * lw\<^sup>2) - (Jyb + 4 * mw * lw\<^sup>2)) * w_x * w_y
    \<and> f psi theta phi w_x w_y w_z tau_1 tau_2 tau_3 tau_4
        = f_displayed psi theta phi w_x w_y w_z tau_1 tau_2 tau_3 tau_4"
proof -
  have len: "length (f psi theta phi w_x w_y w_z tau_1 tau_2 tau_3 tau_4) = 6"
    by (simp add: f_def vstack_def mat_mul_def euler_def M_def mat_inv_def smult_def adj3_def)
  have tk: "take 3 (f psi theta phi w_x w_y w_z tau_1 tau_2 tau_3 tau_4)
        = mat_mul (M theta phi) [[w_x], [w_y], [w_z]]"
    by (simp add: f_def vstack_def mat_mul_def M_def mat_inv_def smult_def adj3_def)
  have dk: "det3 [[- sin theta, 0, 1], [sin phi * cos theta, cos phi, 0],
                  [cos phi * cos theta, - sin phi, 0]] \<noteq> 0"
    using assms det3_kinematic [of theta phi] by (simp add: kinematic_eq)
  have inv: "mat_mul (M theta phi) (kinematic theta phi) = [[1, 0, 0], [0, 1, 0], [0, 0, 1]]"
    unfolding M_def kinematic_eq by (rule mat_inv_inverse(2) [OF dk])
  have fwd: "mat_mul (kinematic theta phi) (mat_mul (M theta phi) [[w_x], [w_y], [w_z]])
        = [[w_x], [w_y], [w_z]]"
  proof -
    have "w_y * (cos phi * (cos phi * cos theta)) + w_y * (cos theta * (sin phi * sin phi))
            = w_y * cos theta"
      and "w_z * (cos phi * (cos phi * cos theta)) + w_z * (cos theta * (sin phi * sin phi))
            = w_z * cos theta"
      using sc1 [of phi] by algebra+
    then show ?thesis
      using assms by (simp add: M_eq kinematic_eq mat_mul_def dot_def tan_def field_simps)
  qed
  note e3 = f_entry_euler(1) [of psi theta phi w_x w_y w_z tau_1 tau_2 tau_3 tau_4]
    and e4 = f_entry_euler(2) [of psi theta phi w_x w_y w_z tau_1 tau_2 tau_3 tau_4]
    and e5 = f_entry_euler(3) [of psi theta phi w_x w_y w_z tau_1 tau_2 tau_3 tau_4]
  have J0: "Jx \<noteq> 0" "Jy \<noteq> 0" "Jz \<noteq> 0" by (simp_all add: Jvals)
  have a3: "(Jxb + 4 * mw * lw\<^sup>2) * entry (f psi theta phi w_x w_y w_z tau_1 tau_2 tau_3 tau_4) 3
        = entry (T tau_1 tau_2 tau_3 tau_4) 0
          + ((Jyb + 4 * mw * lw\<^sup>2) - (Jzb + 4 * mw * lw\<^sup>2)) * w_y * w_z"
    using J0 unfolding e3 Jx_def [symmetric] Jy_def [symmetric] Jz_def [symmetric] by simp
  have a4: "(Jyb + 4 * mw * lw\<^sup>2) * entry (f psi theta phi w_x w_y w_z tau_1 tau_2 tau_3 tau_4) 4
        = entry (T tau_1 tau_2 tau_3 tau_4) 1
          + ((Jzb + 4 * mw * lw\<^sup>2) - (Jxb + 4 * mw * lw\<^sup>2)) * w_z * w_x"
    using J0 unfolding e4 Jx_def [symmetric] Jy_def [symmetric] Jz_def [symmetric] by simp
  have a5: "(Jzb + 4 * mw * lw\<^sup>2) * entry (f psi theta phi w_x w_y w_z tau_1 tau_2 tau_3 tau_4) 5
        = entry (T tau_1 tau_2 tau_3 tau_4) 2
          + ((Jxb + 4 * mw * lw\<^sup>2) - (Jyb + 4 * mw * lw\<^sup>2)) * w_x * w_y"
    using J0 unfolding e5 Jx_def [symmetric] Jy_def [symmetric] Jz_def [symmetric] by simp
  show ?thesis
    using len tk inv fwd a3 a4 a5 f_eq_displayed [OF assms] by simp
qed

theorem dynamics_model_witness:
  "mat_mul (kinematic 0 0) (take 3 (f 0 0 0 1 2 3 0 0 0 0)) = [[1], [2], [3]]
   \<and> f 0 0 0 1 2 3 0 0 0 0 = f_displayed 0 0 0 1 2 3 0 0 0 0
   \<and> f 0 0 0 1 2 3 0 0 0 0 = [[3], [2], [1], [- 900 / 371], [450 / 371], [0]]"
  using dynamics_model [of 0 0 0 1 2 3 0 0 0 0]
  by (simp add: f_displayed_def kinematic_eq mat_mul_def dot_def)

lemma p_star_in_body_eq:
  "p_star_in_body psi theta phi alpha delta =
    [[cos theta * (cos psi * (cos alpha * cos delta) + sin psi * (sin alpha * cos delta))
        - sin theta * sin delta],
     [(sin phi * sin theta * cos psi - cos phi * sin psi) * (cos alpha * cos delta)
        + (sin phi * sin theta * sin psi + cos phi * cos psi) * (sin alpha * cos delta)
        + sin phi * cos theta * sin delta],
     [(cos phi * sin theta * cos psi + sin phi * sin psi) * (cos alpha * cos delta)
        + (cos phi * sin theta * sin psi - sin phi * cos psi) * (sin alpha * cos delta)
        + cos phi * cos theta * sin delta]]"
  by (simp add: p_star_in_body_def R_body_in_space_def p_star_in_space_def mat_mul_def dot_def
      Rx_def Ry_def Rz_def algebra_simps)

lemma p_star_in_body_shift:
  "p_star_in_body psi theta phi alpha delta =
    [[cos theta * (cos delta * cos (alpha - psi)) - sin theta * sin delta],
     [sin phi * sin theta * (cos delta * cos (alpha - psi))
        + cos phi * (cos delta * sin (alpha - psi))
        + sin phi * cos theta * sin delta],
     [cos phi * sin theta * (cos delta * cos (alpha - psi))
        - sin phi * (cos delta * sin (alpha - psi))
        + cos phi * cos theta * sin delta]]"
  by (simp add: p_star_in_body_eq cos_diff sin_diff algebra_simps)

lemma g_eq_displayed:
  assumes "entry (p_star_in_body psi theta phi alpha delta) 0 \<noteq> 0"
  shows "g psi theta phi alpha delta = g_displayed psi theta phi alpha delta"
proof -
  let ?d = "cos theta * (cos delta * cos (alpha - psi)) - sin theta * sin delta"
  have d: "?d \<noteq> 0"
    using assms by (simp add: p_star_in_body_shift entry_def)
  have d': "- sin delta * sin theta + cos delta * cos theta * cos (alpha - psi) = ?d"
    by (simp add: algebra_simps)
  show ?thesis
    unfolding g_def p_star_in_image_def g_displayed_def d'
    using d by (simp add: p_star_in_body_shift entry_def smult_def r_def field_simps)
qed

lemma star_direction_unit:
  "mat_mul (transpose (p_star_in_space alpha delta)) (p_star_in_space alpha delta) = [[1]]"
proof -
  have "cos alpha * cos delta * (cos alpha * cos delta)
        + sin alpha * cos delta * (sin alpha * cos delta) + sin delta * sin delta = 1"
    using sc1 [of alpha] sc1 [of delta] by algebra
  then show ?thesis
    by (simp add: p_star_in_space_def mat_mul_def dot_def)
qed

lemma R_body_in_space_eq:
  "R_body_in_space psi theta phi =
    [[cos psi * cos theta, cos psi * sin theta * sin phi - sin psi * cos phi,
        cos psi * sin theta * cos phi + sin psi * sin phi],
     [sin psi * cos theta, sin psi * sin theta * sin phi + cos psi * cos phi,
        sin psi * sin theta * cos phi - cos psi * sin phi],
     [- sin theta, cos theta * sin phi, cos theta * cos phi]]"
  by (simp add: R_body_in_space_def mat_mul_def dot_def Rx_def Ry_def Rz_def algebra_simps)

lemma R_body_in_space_orthogonal:
  "mat_mul (transpose (R_body_in_space psi theta phi)) (R_body_in_space psi theta phi)
     = [[1, 0, 0], [0, 1, 0], [0, 0, 1]]"
proof -
  have p: "sin psi * sin psi + cos psi * cos psi = 1"
    and t: "sin theta * sin theta + cos theta * cos theta = 1"
    and h: "sin phi * sin phi + cos phi * cos phi = 1"
    by (rule sc1)+
  show ?thesis
    apply (simp add: R_body_in_space_eq mat_mul_def dot_def)
    apply (intro conjI)
    using p t h by algebra+
qed



text \<open>
  Claim C5.  For an attitude and a star whose body-frame \<open>x\<close> component is positive, the
  sensor model \<open>g\<close> returns the two image coordinates obtained from the unit direction of
  the star, \<open>(cos \<alpha> cos \<delta>, sin \<alpha> cos \<delta>, sin \<delta>)\<close>, rotated into the body frame by the transpose
  of \<open>Rz \<cdot> Ry \<cdot> Rx\<close> (which is its inverse), by dividing the body-frame \<open>y\<close> and \<open>z\<close>
  components by the \<open>x\<close> component and multiplying by \<open>1 / r\<close> with \<open>r = 0.8 / 2.1\<close>.  The
  rotations are the ones of the dynamic model, and the result is the expression the
  notebook displays.
\<close>

theorem sensor_model:
  assumes "0 < entry (p_star_in_body psi theta phi alpha delta) 0"
  shows "g psi theta phi alpha delta =
      [[(1 / ((8 / 10) / (21 / 10)))
          * (entry (p_star_in_body psi theta phi alpha delta) 1
              / entry (p_star_in_body psi theta phi alpha delta) 0)],
       [(1 / ((8 / 10) / (21 / 10)))
          * (entry (p_star_in_body psi theta phi alpha delta) 2
              / entry (p_star_in_body psi theta phi alpha delta) 0)]]
    \<and> p_star_in_body psi theta phi alpha delta =
        mat_mul (transpose (mat_mul (mat_mul (Rz psi) (Ry theta)) (Rx phi)))
          [[cos alpha * cos delta], [sin alpha * cos delta], [sin delta]]
    \<and> mat_mul (transpose (mat_mul (mat_mul (Rz psi) (Ry theta)) (Rx phi)))
          (mat_mul (mat_mul (Rz psi) (Ry theta)) (Rx phi))
        = [[1, 0, 0], [0, 1, 0], [0, 0, 1]]
    \<and> mat_mul (transpose [[cos alpha * cos delta], [sin alpha * cos delta], [sin delta]])
          [[cos alpha * cos delta], [sin alpha * cos delta], [sin delta]] = [[1]]
    \<and> g psi theta phi alpha delta = g_displayed psi theta phi alpha delta"
proof -
  have nz: "entry (p_star_in_body psi theta phi alpha delta) 0 \<noteq> 0"
    using assms by simp
  have 1: "g psi theta phi alpha delta =
      [[(1 / ((8 / 10) / (21 / 10)))
          * (entry (p_star_in_body psi theta phi alpha delta) 1
              / entry (p_star_in_body psi theta phi alpha delta) 0)],
       [(1 / ((8 / 10) / (21 / 10)))
          * (entry (p_star_in_body psi theta phi alpha delta) 2
              / entry (p_star_in_body psi theta phi alpha delta) 0)]]"
    by (simp add: g_def p_star_in_image_def smult_def r_def)
  have 2: "p_star_in_body psi theta phi alpha delta =
        mat_mul (transpose (mat_mul (mat_mul (Rz psi) (Ry theta)) (Rx phi)))
          [[cos alpha * cos delta], [sin alpha * cos delta], [sin delta]]"
    by (simp only: p_star_in_body_def R_body_in_space_def p_star_in_space_def)
  have 3: "mat_mul (transpose (mat_mul (mat_mul (Rz psi) (Ry theta)) (Rx phi)))
          (mat_mul (mat_mul (Rz psi) (Ry theta)) (Rx phi))
        = [[1, 0, 0], [0, 1, 0], [0, 0, 1]]"
    using R_body_in_space_orthogonal [of psi theta phi]
    by (simp only: R_body_in_space_def)
  have 4: "mat_mul (transpose [[cos alpha * cos delta], [sin alpha * cos delta], [sin delta]])
          [[cos alpha * cos delta], [sin alpha * cos delta], [sin delta]] = [[1]]"
    using star_direction_unit [of alpha delta]
    by (simp only: p_star_in_space_def)
  from 1 2 3 4 g_eq_displayed [OF nz] show ?thesis
    by blast
qed

theorem sensor_model_witness:
  "0 < entry (p_star_in_body 0 0 0 0 0) 0 \<and> g 0 0 0 0 0 = [[0], [0]] \<and> g_displayed 0 0 0 0 0 = [[0], [0]]"
proof -
  have h: "0 < entry (p_star_in_body 0 0 0 0 0) 0"
    by (simp add: p_star_in_body_shift entry_def)
  from sensor_model [OF h] have "g 0 0 0 0 0 = g_displayed 0 0 0 0 0"
    by blast
  with h show ?thesis
    by (simp add: g_displayed_def)
qed

text \<open>
  Claim C10.  For an attitude and a star whose projection denominator (the body-frame
  \<open>x\<close> component of the star) is not zero, the sensor model depends on the yaw \<open>\<psi>\<close> and
  the right ascension \<open>\<alpha>\<close> only through \<open>\<alpha> - \<psi>\<close>: \<open>g \<psi> \<theta> \<phi> \<alpha> \<delta> = g 0 \<theta> \<phi> (\<alpha> - \<psi>) \<delta>\<close>, with
  the same denominator on both sides, and \<open>g\<close> is the displayed expression, which mentions
  \<open>\<psi>\<close> and \<open>\<alpha>\<close> in no other way.
\<close>

theorem sensor_yaw_shift:
  assumes "entry (p_star_in_body psi theta phi alpha delta) 0 \<noteq> 0"
  shows "g psi theta phi alpha delta = g 0 theta phi (alpha - psi) delta
    \<and> entry (p_star_in_body 0 theta phi (alpha - psi) delta) 0
        = entry (p_star_in_body psi theta phi alpha delta) 0
    \<and> g psi theta phi alpha delta = g_displayed psi theta phi alpha delta"
proof -
  have "p_star_in_body psi theta phi alpha delta = p_star_in_body 0 theta phi (alpha - psi) delta"
    by (simp add: p_star_in_body_shift)
  then show ?thesis
    using g_eq_displayed [OF assms] by (simp add: g_def p_star_in_image_def)
qed

theorem sensor_yaw_shift_witness:
  "entry (p_star_in_body (pi / 2) 0 0 (pi / 2) 0) 0 \<noteq> 0
   \<and> g (pi / 2) 0 0 (pi / 2) 0 = g 0 0 0 0 0"
proof -
  have h: "entry (p_star_in_body (pi / 2) 0 0 (pi / 2) 0) 0 \<noteq> 0"
    by (simp add: p_star_in_body_shift entry_def)
  from sensor_yaw_shift [OF h] show ?thesis
    using h by simp
qed




lemma is_jacobianD:
  assumes "is_jacobian fn x J" and "i < length (fn x)" and "j < length x"
  shows "((\<lambda>t. entry (fn (x[j := t])) i) has_real_derivative J ! i ! j) (at (x ! j))"
  using assms by (simp add: is_jacobian_def)

lemma B_sym_jacobian:
  "is_jacobian (\<lambda>u. f psi theta phi w_x w_y w_z (u!0) (u!1) (u!2) (u!3))
           [tau_1, tau_2, tau_3, tau_4]
           (B_sym psi' theta' phi' w_x' w_y' w_z' tau_1' tau_2' tau_3' tau_4')"
  unfolding is_jacobian_def
  apply (simp add: All_less_Suc f_def vstack_def mat_mul_def M_def mat_inv_def smult_def adj3_def
      euler_def entry_def B_sym_def T_def T1_def T2_def T3_def T4_def mat_add_def Jvals lt_def lw_def)
  apply (intro conjI)
  apply (auto intro!: derivative_eq_intros simp: field_simps)
  done

lemma f_affine_in_torques:
  "f psi theta phi w_x w_y w_z (tau_1 + d_1) (tau_2 + d_2) (tau_3 + d_3) (tau_4 + d_4)
     = mat_add (f psi theta phi w_x w_y w_z tau_1 tau_2 tau_3 tau_4)
         (mat_mul (B_sym psi' theta' phi' w_x' w_y' w_z' tau_1' tau_2' tau_3' tau_4')
            [[d_1], [d_2], [d_3], [d_4]])"
  apply (simp add: f_def vstack_def mat_mul_def M_def mat_inv_def smult_def adj3_def
      euler_def entry_def B_sym_def T_def T1_def T2_def T3_def T4_def mat_add_def Jvals lt_def lw_def
      dot_def)
  apply (simp add: field_simps)
  done

text \<open>
  Claim C9.  The input Jacobian \<open>B\<close> that \<open>get_model\<close> returns is one and the same \<open>6 \<times> 4\<close>
  matrix at every operating point; it is the Jacobian of \<open>f\<close> with respect to the four
  torques at any state and any input, and \<open>f\<close> is affine in the torques with \<open>B\<close> as its
  constant coefficient matrix: \<open>f(x, \<tau> + d) = f(x, \<tau>) + B \<cdot> d\<close>.
\<close>

theorem input_jacobian_constant:
  "snd (get_model psi theta phi w_x w_y w_z tau_1 tau_2 tau_3 tau_4)
     = snd (get_model psi' theta' phi' w_x' w_y' w_z' tau_1' tau_2' tau_3' tau_4')
   \<and> is_jacobian (\<lambda>u. f psi theta phi w_x w_y w_z (u!0) (u!1) (u!2) (u!3))
        [tau_1, tau_2, tau_3, tau_4]
        (snd (get_model psi' theta' phi' w_x' w_y' w_z' tau_1' tau_2' tau_3' tau_4'))
   \<and> f psi theta phi w_x w_y w_z (tau_1 + d_1) (tau_2 + d_2) (tau_3 + d_3) (tau_4 + d_4)
       = mat_add (f psi theta phi w_x w_y w_z tau_1 tau_2 tau_3 tau_4)
           (mat_mul (snd (get_model psi' theta' phi' w_x' w_y' w_z' tau_1' tau_2' tau_3' tau_4'))
              [[d_1], [d_2], [d_3], [d_4]])"
proof -
  have "snd (get_model psi theta phi w_x w_y w_z tau_1 tau_2 tau_3 tau_4)
     = snd (get_model psi' theta' phi' w_x' w_y' w_z' tau_1' tau_2' tau_3' tau_4')"
    by (simp add: get_model_def B_num_def B_sym_def)
  moreover have "snd (get_model psi' theta' phi' w_x' w_y' w_z' tau_1' tau_2' tau_3' tau_4')
     = B_sym psi' theta' phi' w_x' w_y' w_z' tau_1' tau_2' tau_3' tau_4'"
    by (simp add: get_model_def B_num_def)
  ultimately show ?thesis
    using B_sym_jacobian f_affine_in_torques by simp
qed

text \<open>
  Claim C9 at two operating points, with the derivative of the fourth entry of \<open>f\<close> along
  \<open>\<tau>\<^sub>1\<close> read off the matrix returned at the other point.
\<close>

theorem input_jacobian_constant_witness:
  "snd (get_model 0 0 0 0 0 0 0 0 0 0) = snd (get_model 1 1 1 1 1 1 1 1 1 1)
   \<and> ((\<lambda>t. entry (f 0 0 0 0 0 0 t 0 0 0) 3) has_real_derivative - 55 * sqrt 2 / 1484) (at 0)"
proof -
  have a: "is_jacobian (\<lambda>u. f 0 0 0 0 0 0 (u!0) (u!1) (u!2) (u!3)) [0, 0, 0, 0]
        (snd (get_model 1 1 1 1 1 1 1 1 1 1))"
    and b: "snd (get_model 0 0 0 0 0 0 0 0 0 0) = snd (get_model 1 1 1 1 1 1 1 1 1 1)"
    using input_jacobian_constant [of 0 0 0 0 0 0 0 0 0 0 1 1 1 1 1 1 1 1 1 1 0 0 0 0]
    by blast+
  have len: "length (f 0 0 0 0 0 0 0 0 0 0) = 6"
    by (simp add: f_def vstack_def mat_mul_def euler_def M_def mat_inv_def smult_def adj3_def)
  have "((\<lambda>t. entry (f 0 0 0 0 0 0 ([0, 0, 0, 0][0 := t] ! 0) ([0, 0, 0, 0][0 := t] ! 1)
              ([0, 0, 0, 0][0 := t] ! 2) ([0, 0, 0, 0][0 := t] ! 3)) 3)
          has_real_derivative snd (get_model 1 1 1 1 1 1 1 1 1 1) ! 3 ! 0) (at ([0, 0, 0, 0] ! 0))"
    by (rule is_jacobianD [OF a]) (simp_all add: len)
  then have "((\<lambda>t. entry (f 0 0 0 0 0 0 t 0 0 0) 3)
          has_real_derivative - 55 * sqrt 2 / 1484) (at 0)"
    by (simp add: get_model_def B_num_def B_sym_def)
  with b show ?thesis by simp
qed





lemma nrows_is_array: "is_array rws cls a \<Longrightarrow> nrows a = rws"
  by (simp add: is_array_def nrows_def)

lemma ncols_is_array: "is_array rws cls a \<Longrightarrow> 0 < rws \<Longrightarrow> ncols a = cls"
  by (cases a) (auto simp: is_array_def ncols_def)

lemma foldr_max_rect:
  "\<forall>row \<in> set a. length row = cls \<Longrightarrow> a \<noteq> [] \<Longrightarrow> foldr (\<lambda>xs. max (length xs)) a 0 = cls"
proof (induction a)
  case Nil
  then show ?case by simp
next
  case (Cons row a)
  show ?case
  proof (cases "a = []")
    case True
    with Cons.prems show ?thesis by simp
  next
    case False
    with Cons show ?thesis by simp
  qed
qed

lemma length_transpose_is_array:
  "is_array rws cls a \<Longrightarrow> 0 < rws \<Longrightarrow> length (transpose a) = cls"
  unfolding length_transpose is_array_def
  by (rule foldr_max_rect) auto

lemma is_array_mat_mul:
  assumes "is_array p n c" and "is_array n m a" and "0 < n"
  shows "is_array p m (mat_mul c a)"
  using assms length_transpose_is_array [OF assms(2,3)]
  by (auto simp: is_array_def mat_mul_def)

lemma matmul_is_array:
  assumes "is_array p n c" and "is_array n m a" and "0 < p" and "0 < n"
  shows "matmul c a = Inr (mat_mul c a)"
  using ncols_is_array [OF assms(1,3)] nrows_is_array [OF assms(2)]
  by (simp add: matmul_def)

lemma observability_matrix_spec_3:
  "observability_matrix_spec 3 A C = C @ mat_mul C A @ mat_mul (mat_mul C A) A"
  by (simp add: observability_matrix_spec_def eval_nat_numeral)

text \<open>
  Claim C3, as the code has it.  For an \<open>n \<times> n\<close> array \<open>A\<close> and a \<open>p \<times> n\<close> array \<open>C\<close>, the
  observability cell stacks the three blocks \<open>C\<close>, \<open>C \<cdot> A\<close> and \<open>C \<cdot> A \<cdot> A\<close> (the blocks
  \<open>i = 0, 1, 2\<close> of the specification's matrix) into a \<open>3p \<times> n\<close> array.  The next cell shows
  the rank the library computes for it and requires nothing of it, and the observer cell
  places the poles of \<open>(A\<^sup>T, C\<^sup>T)\<close> and transposes the gain, whatever the rank was: an error
  can only come from the library routine.
\<close>

theorem observability_check:
  assumes "is_array n n A" and "is_array p n C" and "0 < n" and "0 < p"
  shows "Wo A C = Inr (C @ mat_mul C A @ mat_mul (mat_mul C A) A)
    \<and> Wo A C = Inr (observability_matrix_spec 3 A C)
    \<and> is_array (3 * p) n (C @ mat_mul C A @ mat_mul (mat_mul C A) A)
    \<and> show_rank matrix_rank W = matrix_rank W
    \<and> L place_poles A C =
        (case place_poles (transpose A) (transpose C) [- 1, - 1] of
           Inl e \<Rightarrow> Inl e | Inr gain_matrix \<Rightarrow> Inr (transpose gain_matrix))"
proof -
  have ca: "is_array p n (mat_mul C A)"
    by (rule is_array_mat_mul [OF assms(2,1,3)])
  have caa: "is_array p n (mat_mul (mat_mul C A) A)"
    by (rule is_array_mat_mul [OF ca assms(1,3)])
  have m1: "matmul C A = Inr (mat_mul C A)"
    by (rule matmul_is_array [OF assms(2,1,4,3)])
  have m2: "matmul (mat_mul C A) A = Inr (mat_mul (mat_mul C A) A)"
    by (rule matmul_is_array [OF ca assms(1,4,3)])
  have up: "is_array (p + p) n (C @ mat_mul C A)"
    using assms(2) ca by (auto simp: is_array_def)
  have v1: "vcat C (mat_mul C A) = Inr (C @ mat_mul C A)"
    using ncols_is_array [OF assms(2,4)] ncols_is_array [OF ca assms(4)]
    by (simp add: vcat_def)
  have v2: "vcat (C @ mat_mul C A) (mat_mul (mat_mul C A) A)
      = Inr ((C @ mat_mul C A) @ mat_mul (mat_mul C A) A)"
    using ncols_is_array [OF up] ncols_is_array [OF caa assms(4)] assms(4)
    by (simp add: vcat_def)
  have w: "Wo A C = Inr (C @ mat_mul C A @ mat_mul (mat_mul C A) A)"
    by (simp add: Wo_def and_then_def m1 m2 v1 v2)
  have sh: "is_array (3 * p) n (C @ mat_mul C A @ mat_mul (mat_mul C A) A)"
    using assms(2) ca caa by (auto simp: is_array_def)
  show ?thesis
    using w sh
    by (simp add: observability_matrix_spec_3 show_rank_def L_def and_then_def)
qed

text \<open>
  Claim C3 for a double integrator observed through its first state.
\<close>

theorem observability_check_witness:
  "Wo [[0, 1], [0, 0]] [[1, 0]] = Inr [[1, 0], [0, 1], [0, 0]]
   \<and> observability_matrix_spec 3 [[0, 1], [0, 0]] [[1, 0]] = [[1, 0], [0, 1], [0, 0]]"
proof -
  have "is_array 2 2 [[0, 1], [0, 0 :: real]]" "is_array 1 2 [[1, 0 :: real]]" "(0::nat) < 2" "(0::nat) < 1"
    by (simp_all add: is_array_def)
  from observability_check [OF this, of "\<lambda>W. Inr 2" "[]" "\<lambda>a c poles. Inl ValueError"]
  have "Wo [[0, 1], [0, 0]] [[1, 0]] = Inr ([[1, 0]] @ mat_mul [[1, 0]] [[0, 1], [0, 0]]
          @ mat_mul (mat_mul [[1, 0]] [[0, 1], [0, 0]]) [[0, 1], [0, 0]])"
    and "Wo [[0, 1], [0, 0]] [[1, 0]] = Inr (observability_matrix_spec 3 [[0, 1], [0, 0]] [[1, 0]])"
    by blast+
  then show ?thesis
    by (simp add: mat_mul_def dot_def)
qed

lemma row_shift:
  "mat_mul [[a, b, c, d, e, h]] 
     [[0, 1, 0, 0, 0, 0], [0, 0, 1, 0, 0, 0], [0, 0, 0, 1, 0, 0],
         [0, 0, 0, 0, 1, 0], [0, 0, 0, 0, 0, 1], [0, 0, 0, 0, 0, 0]] = [[0, a, b, c, d, e]]"
  by (simp add: mat_mul_def dot_def)

text \<open>
  Claim C3 as stated fails.  For the six-state chain \<open>x\<^sub>i' = x\<^sub>i\<^sub>+\<^sub>1\<close> observed through \<open>x\<^sub>1\<close>,
  the six blocks \<open>C \<cdot> A\<^sup>i\<close> form the identity matrix, of rank 6, but the matrix the cell
  builds has the first three rows only: it is not the matrix of the claim, it does not have
  column rank 6 (it maps the sixth unit vector to zero), and the cells raise nothing.
\<close>

theorem observability_check_three_blocks:
  "Wo [[0, 1, 0, 0, 0, 0], [0, 0, 1, 0, 0, 0], [0, 0, 0, 1, 0, 0],
       [0, 0, 0, 0, 1, 0], [0, 0, 0, 0, 0, 1], [0, 0, 0, 0, 0, 0]]
      [[1, 0, 0, 0, 0, 0]]
     = Inr [[1, 0, 0, 0, 0, 0], [0, 1, 0, 0, 0, 0], [0, 0, 1, 0, 0, 0]]
   \<and> observability_matrix_spec 6
      [[0, 1, 0, 0, 0, 0], [0, 0, 1, 0, 0, 0], [0, 0, 0, 1, 0, 0],
       [0, 0, 0, 0, 1, 0], [0, 0, 0, 0, 0, 1], [0, 0, 0, 0, 0, 0]]
      [[1, 0, 0, 0, 0, 0]]
     = [[1, 0, 0, 0, 0, 0], [0, 1, 0, 0, 0, 0], [0, 0, 1, 0, 0, 0],
        [0, 0, 0, 1, 0, 0], [0, 0, 0, 0, 1, 0], [0, 0, 0, 0, 0, 1]]
   \<and> mat_mul [[1, 0, 0, 0, 0, 0], [0, 1, 0, 0, 0, 0], [0, 0, 1, 0, 0, 0]]
        [[0], [0], [0], [0], [0], [1]] = [[0], [0], [0]]
   \<and> show_rank (\<lambda>W. Inr 3) [[1, 0, 0, 0, 0, 0], [0, 1, 0, 0, 0, 0], [0, 0, 1, 0, 0, 0]]
     = Inr 3"
  apply (intro conjI)
     apply (simp add: Wo_def and_then_def matmul_def vcat_def ncols_def nrows_def row_shift)
    apply (simp add: observability_matrix_spec_def eval_nat_numeral row_shift)
   apply (simp add: mat_mul_def dot_def)
  apply (simp add: show_rank_def)
  done

lemma np_sub_same_shape:
  assumes "is_array rws cls a" and "is_array rws cls b" and "0 < rws"
  shows "np_sub a b = Inr (map2 (map2 (-)) a b)"
proof -
  have "stretch rws a = a" "stretch rws b = b"
    using assms by (simp_all add: stretch_def is_array_def)
  moreover have "map (stretch cls) a = a" "map (stretch cls) b = b"
    using assms by (simp_all add: stretch_def is_array_def map_idI)
  ultimately show ?thesis
    using nrows_is_array [OF assms(1)] nrows_is_array [OF assms(2)]
      ncols_is_array [OF assms(1,3)] ncols_is_array [OF assms(2,3)]
    by (simp add: np_sub_def bdim_def broadcast_to_def)
qed

lemma is_array_np_neg: "is_array rws cls a \<Longrightarrow> is_array rws cls (np_neg a)"
  by (simp add: is_array_def np_neg_def)

lemma is_array_map2:
  assumes "is_array rws c1 a" and "is_array rws c2 b"
    and "\<And>x y. length x = c1 \<Longrightarrow> length y = c2 \<Longrightarrow> length (h x y) = c3"
  shows "is_array rws c3 (map2 h a b)"
  unfolding is_array_def
proof (intro conjI ballI)
  show "length (map2 h a b) = rws"
    using assms(1,2) by (simp add: is_array_def)
next
  fix row assume "row \<in> set (map2 h a b)"
  then obtain x y where "(x, y) \<in> set (zip a b)" and row: "row = h x y"
    by auto
  then have "x \<in> set a" and "y \<in> set b"
    by (auto elim: in_set_zipE)
  then have "length x = c1" and "length y = c2"
    using assms(1,2) by (auto simp: is_array_def)
  then show "length row = c3"
    unfolding row by (rule assms(3))
qed

lemma is_array_map2_minus:
  "is_array rws cls a \<Longrightarrow> is_array rws cls b \<Longrightarrow> is_array rws cls (map2 (map2 (-)) a b)"
  by (rule is_array_map2) auto





lemma F_six_states_ValueError:
  assumes "is_array 6 6 A" and "is_array 6 m B" and "is_array m 6 K"
    and "is_array 6 p Lg" and "is_array p 6 C" and "0 < m" and "0 < p"
  shows "F A B C K Lg = Inl ValueError"
proof -
  have six: "(0::nat) < 6" by simp
  have bk: "is_array 6 6 (mat_mul B K)"
    by (rule is_array_mat_mul [OF assms(2,3,6)])
  have nbk: "is_array 6 6 (mat_mul (np_neg B) K)"
    by (rule is_array_mat_mul [OF is_array_np_neg [OF assms(2)] assms(3,6)])
  have lc: "is_array 6 6 (mat_mul Lg C)"
    by (rule is_array_mat_mul [OF assms(4,5,7)])
  have m1: "matmul B K = Inr (mat_mul B K)"
    by (rule matmul_is_array [OF assms(2,3) six assms(6)])
  have m2: "matmul (np_neg B) K = Inr (mat_mul (np_neg B) K)"
    by (rule matmul_is_array [OF is_array_np_neg [OF assms(2)] assms(3) six assms(6)])
  have m3: "matmul Lg C = Inr (mat_mul Lg C)"
    by (rule matmul_is_array [OF assms(4,5) six assms(7)])
  have s1: "np_sub A (mat_mul B K) = Inr (map2 (map2 (-)) A (mat_mul B K))"
    by (rule np_sub_same_shape [OF assms(1) bk six])
  have s2: "np_sub A (mat_mul Lg C) = Inr (map2 (map2 (-)) A (mat_mul Lg C))"
    by (rule np_sub_same_shape [OF assms(1) lc six])
  have abk: "is_array 6 6 (map2 (map2 (-)) A (mat_mul B K))"
    by (rule is_array_map2_minus [OF assms(1) bk])
  have alc: "is_array 6 6 (map2 (map2 (-)) A (mat_mul Lg C))"
    by (rule is_array_map2_minus [OF assms(1) lc])
  have h1: "hcat (map2 (map2 (-)) A (mat_mul B K)) (mat_mul (np_neg B) K)
      = Inr (map2 (@) (map2 (map2 (-)) A (mat_mul B K)) (mat_mul (np_neg B) K))"
    using nrows_is_array [OF abk] nrows_is_array [OF nbk] by (simp add: hcat_def)
  have h2: "hcat (zeros 2 2) (map2 (map2 (-)) A (mat_mul Lg C)) = Inl ValueError"
    using nrows_is_array [OF alc] by (simp add: hcat_def zeros_def nrows_def)
  show ?thesis
    by (simp add: F_def and_then_def m1 m2 m3 s1 s2 h1 h2)
qed






lemma A_at_rest:
  "fst (get_model psi theta phi 0 0 0 tau_1 tau_2 tau_3 tau_4) =
     [[0, 0, 0, 0, sin phi / cos theta, cos phi / cos theta],
      [0, 0, 0, 0, cos phi, - sin phi],
      [0, 0, 0, 1, sin phi * tan theta, cos phi * tan theta],
      [0, 0, 0, 0, 0, 0], [0, 0, 0, 0, 0, 0], [0, 0, 0, 0, 0, 0]]"
  by (simp add: get_model_def A_num_def A_sym_def)

lemma row_twice_at_rest:
  assumes "length row = 6"
  shows "map (dot (map (dot row)
            (transpose (fst (get_model psi theta phi 0 0 0 tau_1 tau_2 tau_3 tau_4)))))
          (transpose (fst (get_model psi theta phi 0 0 0 tau_1 tau_2 tau_3 tau_4)))
         = [0, 0, 0, 0, 0, 0]"
proof -
  obtain a b c d e h where "row = [a, b, c, d, e, h]"
    using assms by (auto simp: length_Suc_conv eval_nat_numeral)
  then show ?thesis
    by (simp add: A_at_rest dot_def)
qed

lemma zero_row_at_rest:
  "map (dot [0, 0, 0, 0, 0, 0])
     (transpose (fst (get_model psi theta phi 0 0 0 tau_1 tau_2 tau_3 tau_4)))
   = [0, 0, 0, 0, 0, 0]"
  by (simp add: A_at_rest dot_def)

lemma blocks_vanish_at_rest:
  assumes "is_array p 6 C"
  shows "C_A_power C (fst (get_model psi theta phi 0 0 0 tau_1 tau_2 tau_3 tau_4)) (Suc (Suc i))
         = zeros p 6"
proof (induction i)
  case 0
  have "map (\<lambda>row. map (dot (map (dot row)
            (transpose (fst (get_model psi theta phi 0 0 0 tau_1 tau_2 tau_3 tau_4)))))
          (transpose (fst (get_model psi theta phi 0 0 0 tau_1 tau_2 tau_3 tau_4)))) C
        = map (\<lambda>row. [0, 0, 0, 0, 0, 0]) C"
    using assms by (intro map_cong refl row_twice_at_rest) (simp add: is_array_def)
  also have "\<dots> = zeros p 6"
    using assms by (simp add: zeros_def is_array_def map_replicate_const eval_nat_numeral)
  finally show ?case
    by (simp add: mat_mul_def comp_def)
next
  case (Suc i)
  have "mat_mul (zeros p 6) (fst (get_model psi theta phi 0 0 0 tau_1 tau_2 tau_3 tau_4))
      = zeros p 6"
    using zero_row_at_rest by (simp add: mat_mul_def zeros_def eval_nat_numeral)
  with Suc show ?case by simp
qed

end
